theory Spec2Isabelle
  imports Complex_Main "HOL-Library.Word"
begin

unbundle bit_operations_syntax

section \<open>Stepper pulse generation (TinyG2 stepper.cpp)\<close>

text \<open>
  A shallow embedding of \<^verbatim>\<open>src/TinyG2/stepper.cpp\<close>: the runtime and prep
  singletons, the DDA and dwell interrupt routines, the loader, the enable and disable
  routines and the three prep functions. Integers of the source are 32-bit words whose
  arithmetic wraps; \<^verbatim>\<open>int32_t\<close> fields are read with \<open>sint\<close> and compared with
  \<open><s\<close>. Interrupt routines are functions from the whole machine state to the
  whole machine state.
\<close>

subsection \<open>Motors, enumerations and status codes\<close>

text \<open>The motor indices \<^verbatim>\<open>MOTOR_1 .. MOTOR_6\<close> used to index \<^verbatim>\<open>st.m[]\<close>,
  \<^verbatim>\<open>sps.m[]\<close> and \<^verbatim>\<open>cfg.m[]\<close>, and naming the objects \<^verbatim>\<open>motor_1 .. motor_6\<close>.\<close>

datatype motor = MOTOR_1 | MOTOR_2 | MOTOR_3 | MOTOR_4 | MOTOR_5 | MOTOR_6

text \<open>\<^verbatim>\<open>enum prepBufferState\<close>.\<close>

datatype prepBufferState = PREP_BUFFER_OWNED_BY_LOADER | PREP_BUFFER_OWNED_BY_EXEC

text \<open>Modelled from the spec: the move types of \<^verbatim>\<open>planner.h\<close>, which is not part of
  the sources at hand (spec: \<open>move_type \<in> {None, ALine, Dwell}\<close>).\<close>

datatype moveType = MOVE_TYPE_NULL | MOVE_TYPE_ALINE | MOVE_TYPE_DWELL

text \<open>Modelled from the spec: the status codes of \<^verbatim>\<open>tinyg2.h\<close>, which is not part of
  the sources at hand (spec: \<open>Ok\<close>, \<open>Noop\<close>, \<open>InternalError\<close>, \<open>ZeroLengthMove\<close>).\<close>

datatype stat = STAT_OK | STAT_NOOP | STAT_INTERNAL_ERROR | STAT_ZERO_LENGTH_MOVE

subsection \<open>Floating-point arguments\<close>

text \<open>
  The \<^verbatim>\<open>float\<close> arguments of the prep functions. A finite float is the real number it
  denotes, next to the two infinities and NaN; signed zeros are not distinguished.
  Comparisons are exact. A multiplication or division returns the exact result rounded
  to the format the operation is carried out in; the rounding is the first argument of
  \<open>fmul\<close> and \<open>fdiv\<close>, a function from the exact result to the float returned (an
  infinity on overflow).
\<close>

datatype cfloat = Fin real | PInf | NInf | NaN

fun isfinite :: "cfloat \<Rightarrow> bool" where
  "isfinite (Fin r) = True"
| "isfinite PInf = False"
| "isfinite NInf = False"
| "isfinite NaN = False"

text \<open>\<^verbatim>\<open>x < c\<close> for a finite constant \<open>c\<close>; every comparison with NaN is false.\<close>

fun flt :: "cfloat \<Rightarrow> real \<Rightarrow> bool" where
  "flt (Fin r) c = (r < c)"
| "flt PInf c = False"
| "flt NInf c = True"
| "flt NaN c = False"

text \<open>\<^verbatim>\<open>x * c\<close> and \<^verbatim>\<open>x / c\<close> for a finite constant \<open>c\<close>, rounded by \<open>rnd\<close>.\<close>

fun fmul :: "(real \<Rightarrow> cfloat) \<Rightarrow> cfloat \<Rightarrow> real \<Rightarrow> cfloat" where
  "fmul rnd (Fin r) c = rnd (r * c)"
| "fmul rnd PInf c = (if 0 < c then PInf else if c < 0 then NInf else NaN)"
| "fmul rnd NInf c = (if 0 < c then NInf else if c < 0 then PInf else NaN)"
| "fmul rnd NaN c = NaN"

fun fdiv :: "(real \<Rightarrow> cfloat) \<Rightarrow> cfloat \<Rightarrow> real \<Rightarrow> cfloat" where
  "fdiv rnd (Fin r) c =
     (if c = 0 then (if 0 < r then PInf else if r < 0 then NInf else NaN) else rnd (r / c))"
| "fdiv rnd PInf c = (if 0 \<le> c then PInf else NInf)"
| "fdiv rnd NInf c = (if 0 \<le> c then NInf else PInf)"
| "fdiv rnd NaN c = NaN"

fun fabs :: "cfloat \<Rightarrow> cfloat" where
  "fabs (Fin r) = Fin \<bar>r\<bar>"
| "fabs PInf = PInf"
| "fabs NInf = PInf"
| "fabs NaN = NaN"

text \<open>
  The rounding of IEEE 754 binary32, the \<^verbatim>\<open>float\<close> of the target: to the nearest value
  with a 24-bit significand, ties to the even significand, exponents from \<open>- 126\<close>
  (subnormal below) to 127, an infinity from \<open>2^128\<close> on. \<open>binade n a\<close> searches the
  exponent of \<open>a\<close> downwards from \<open>n - 126\<close>.
\<close>

definition round_half_even :: "real \<Rightarrow> int" where
  "round_half_even x =
     (let f = \<lfloor>x\<rfloor>; d = x - of_int f
      in if d < 1 / 2 then f else if 1 / 2 < d then f + 1 else if even f then f else f + 1)"

fun binade :: "nat \<Rightarrow> real \<Rightarrow> int" where
  "binade 0 a = - 126"
| "binade (Suc n) a = (if 2 powi (int n - 125) \<le> a then int n - 125 else binade n a)"

definition round_binary32 :: "real \<Rightarrow> cfloat" where
  "round_binary32 x =
     (let u = 2 powi (binade 253 \<bar>x\<bar> - 23);
          y = of_int (round_half_even (x / u)) * u
      in if 2 powi 128 \<le> y then PInf else if y \<le> - (2 powi 128) then NInf else Fin y)"

text \<open>Truncation towards zero, the rule of C's conversion from float to integer.\<close>

definition trunc :: "real \<Rightarrow> int" where
  "trunc r = (if 0 \<le> r then \<lfloor>r\<rfloor> else \<lceil>r\<rceil>)"

text \<open>
  The cast \<^verbatim>\<open>(uint32_t)x\<close>. C defines it when the truncated value fits in 32 bits,
  that is for \<open>-1 < x < 2^32\<close>; for every other argument the result is whatever the
  platform's conversion routine returns, which is the parameter \<open>oor\<close>.
\<close>

definition to_uint32 :: "(cfloat \<Rightarrow> 32 word) \<Rightarrow> cfloat \<Rightarrow> 32 word" where
  "to_uint32 oor x =
     (case x of
        Fin r \<Rightarrow> if - 1 < r \<and> r < 2 ^ 32 then word_of_int (trunc r) else oor x
      | _ \<Rightarrow> oor x)"

subsection \<open>Configuration and compile-time constants\<close>

text \<open>
  The macros \<^verbatim>\<open>DDA_SUBSTEPS\<close>, \<^verbatim>\<open>FREQUENCY_DDA\<close>, \<^verbatim>\<open>FREQUENCY_DWELL\<close>,
  \<^verbatim>\<open>COUNTER_RESET_FACTOR\<close> and \<^verbatim>\<open>EPSILON\<close>, the configuration \<^verbatim>\<open>cfg.m[]\<close> and the
  pin assignment come from headers outside the sources at hand; they are parameters.
  \<open>step_isNull i\<close> is \<^verbatim>\<open>motor_i.step.isNull()\<close>, a constant of the board.
  \<open>float_oor\<close> is the platform's float-to-unsigned conversion outside the range C defines.
  The format a float operation is carried out in depends on the type of the macro in it
  (\<^verbatim>\<open>float\<close> for an integer or \<^verbatim>\<open>float\<close> macro, \<^verbatim>\<open>double\<close> for a \<^verbatim>\<open>double\<close> one), so
  the rounding of each operation is a parameter too: \<open>round_quot\<close> for
  \<^verbatim>\<open>microseconds/1000000\<close>, \<open>round_substeps\<close> for \<^verbatim>\<open>steps[i] * DDA_SUBSTEPS\<close>,
  \<open>round_dda\<close> and \<open>round_dwell\<close> for the products with the two frequencies.
\<close>

record env =
  DDA_SUBSTEPS :: int
  FREQUENCY_DDA :: real
  FREQUENCY_DWELL :: real
  COUNTER_RESET_FACTOR :: int
  EPSILON :: real
  polarity :: "motor \<Rightarrow> 8 word"
  power_mode :: "motor \<Rightarrow> 8 word"
  step_isNull :: "motor \<Rightarrow> bool"
  float_oor :: "cfloat \<Rightarrow> 32 word"
  round_quot :: "real \<Rightarrow> cfloat"
  round_substeps :: "real \<Rightarrow> cfloat"
  round_dda :: "real \<Rightarrow> cfloat"
  round_dwell :: "real \<Rightarrow> cfloat"

subsection \<open>The stepper structures\<close>

text \<open>\<^verbatim>\<open>stRunMotor_t\<close>: \<^verbatim>\<open>int32_t phase_increment, phase_accumulator\<close> and
  \<^verbatim>\<open>uint32_t step_count_diagnostic\<close>.\<close>

record stRunMotor =
  phase_increment :: "32 word"
  phase_accumulator :: "32 word"
  step_count_diagnostic :: "32 word"

text \<open>\<^verbatim>\<open>stRunSingleton_t\<close> (the variable \<^verbatim>\<open>st\<close>); the two tick fields are \<^verbatim>\<open>int32_t\<close>.\<close>

record stRunSingleton =
  st_magic_start :: "16 word"
  timer_ticks_downcount :: "32 word"
  st_timer_ticks_X_substeps :: "32 word"
  st_m :: "motor \<Rightarrow> stRunMotor"

text \<open>\<^verbatim>\<open>stPrepMotor_t\<close>: \<^verbatim>\<open>uint32_t phase_increment\<close> and \<^verbatim>\<open>int8_t dir\<close>.\<close>

record stPrepMotor =
  prep_phase_increment :: "32 word"
  dir :: "8 word"

text \<open>\<^verbatim>\<open>stPrepSingleton\<close> (the variable \<^verbatim>\<open>sps\<close>). \<^verbatim>\<open>counter_reset_flag\<close> only ever
  holds \<^verbatim>\<open>false\<close> or \<^verbatim>\<open>true\<close> and is a \<open>bool\<close> here.\<close>

record stPrepSingleton =
  sps_magic_start :: "16 word"
  move_type :: moveType
  exec_state :: prepBufferState
  counter_reset_flag :: bool
  prev_ticks :: "32 word"
  timer_ticks :: "32 word"
  timer_ticks_X_substeps :: "32 word"
  sps_m :: "motor \<Rightarrow> stPrepMotor"

text \<open>
  The machine: the two singletons, the four timers and the output pins. A pin is
  \<open>True\<close> after \<^verbatim>\<open>set()\<close> and \<open>False\<close> after \<^verbatim>\<open>clear()\<close>. \<open>step_pulses i\<close> counts
  the calls of \<^verbatim>\<open>motor_i.step.set()\<close>, the leading edges of the step pulses of motor
  \<open>i\<close>. A software interrupt that has been requested is a pending flag.
\<close>

record machine =
  st :: stRunSingleton
  sps :: stPrepSingleton
  dda_timer_on :: bool
  dwell_timer_on :: bool
  load_timer_pending :: bool
  exec_timer_pending :: bool
  proof_of_timer :: bool
  enable :: bool
  motor_step :: "motor \<Rightarrow> bool"
  motor_dir :: "motor \<Rightarrow> bool"
  motor_enable :: "motor \<Rightarrow> bool"
  step_pulses :: "motor \<Rightarrow> nat"

subsection \<open>Field and pin access\<close>

definition set_phase_increment :: "motor \<Rightarrow> 32 word \<Rightarrow> machine \<Rightarrow> machine" where
  "set_phase_increment i v s =
     s\<lparr>st := (st s)\<lparr>st_m := (st_m (st s))(i := (st_m (st s) i)\<lparr>phase_increment := v\<rparr>)\<rparr>\<rparr>"

definition set_phase_accumulator :: "motor \<Rightarrow> 32 word \<Rightarrow> machine \<Rightarrow> machine" where
  "set_phase_accumulator i v s =
     s\<lparr>st := (st s)\<lparr>st_m := (st_m (st s))(i := (st_m (st s) i)\<lparr>phase_accumulator := v\<rparr>)\<rparr>\<rparr>"

definition step_set :: "motor \<Rightarrow> machine \<Rightarrow> machine" where
  "step_set i s =
     s\<lparr>motor_step := (motor_step s)(i := True),
       step_pulses := (step_pulses s)(i := Suc (step_pulses s i))\<rparr>"

definition step_clear :: "motor \<Rightarrow> machine \<Rightarrow> machine" where
  "step_clear i s = s\<lparr>motor_step := (motor_step s)(i := False)\<rparr>"

definition dir_set :: "motor \<Rightarrow> machine \<Rightarrow> machine" where
  "dir_set i s = s\<lparr>motor_dir := (motor_dir s)(i := True)\<rparr>"

definition dir_clear :: "motor \<Rightarrow> machine \<Rightarrow> machine" where
  "dir_clear i s = s\<lparr>motor_dir := (motor_dir s)(i := False)\<rparr>"

definition enable_set :: "motor \<Rightarrow> machine \<Rightarrow> machine" where
  "enable_set i s = s\<lparr>motor_enable := (motor_enable s)(i := True)\<rparr>"

definition enable_clear :: "motor \<Rightarrow> machine \<Rightarrow> machine" where
  "enable_clear i s = s\<lparr>motor_enable := (motor_enable s)(i := False)\<rparr>"

subsection \<open>Enable and disable\<close>

definition st_enable :: "machine \<Rightarrow> machine" where
  "st_enable s = (let s = s\<lparr>enable := False\<rparr> in s\<lparr>dda_timer_on := True\<rparr>)"

definition st_disable :: "machine \<Rightarrow> machine" where
  "st_disable s =
     (let s = s\<lparr>dda_timer_on := False\<rparr>;
          s = s\<lparr>enable := True\<rparr>;
          s = enable_set MOTOR_1 s;
          s = enable_set MOTOR_2 s;
          s = enable_set MOTOR_4 s;
          s = enable_set MOTOR_5 s;
          s = enable_set MOTOR_6 s;
          s = set_phase_increment MOTOR_1 0 s;
          s = set_phase_increment MOTOR_2 0 s;
          s = set_phase_increment MOTOR_3 0 s;
          s = set_phase_increment MOTOR_4 0 s;
          s = set_phase_increment MOTOR_5 0 s
      in set_phase_increment MOTOR_6 0 s)"

subsection \<open>Exec request and loader\<close>

definition st_request_exec_move :: "machine \<Rightarrow> machine" where
  "st_request_exec_move s =
     (if exec_state (sps s) = PREP_BUFFER_OWNED_BY_EXEC then s\<lparr>exec_timer_pending := True\<rparr>
      else s)"

text \<open>
  One of the six per-motor blocks of the aline branch of \<^verbatim>\<open>_load_move\<close>. The blocks
  differ in the value they give the accumulator on a counter reset, which is
  \<open>reset\<close> applied to \<^verbatim>\<open>st.timer_ticks_downcount\<close>.
\<close>

definition load_motor :: "motor \<Rightarrow> (32 word \<Rightarrow> 32 word) \<Rightarrow> machine \<Rightarrow> machine" where
  "load_motor i reset s =
     (let s = set_phase_increment i (prep_phase_increment (sps_m (sps s) i)) s;
          s = (if counter_reset_flag (sps s)
               then set_phase_accumulator i (reset (timer_ticks_downcount (st s))) s
               else s)
      in if phase_increment (st_m (st s) i) \<noteq> 0
         then (let s = (if dir (sps_m (sps s) i) = 0 then dir_clear i s else dir_set i s)
               in enable_clear i s)
         else s)"

definition load_move :: "machine \<Rightarrow> machine" where
  "load_move s =
     (let s =
        (if move_type (sps s) = MOVE_TYPE_ALINE then
           (let s = s\<lparr>st := (st s)\<lparr>timer_ticks_downcount := timer_ticks (sps s)\<rparr>\<rparr>;
                s = s\<lparr>st := (st s)\<lparr>st_timer_ticks_X_substeps := timer_ticks_X_substeps (sps s)\<rparr>\<rparr>;
                s = load_motor MOTOR_1 (\<lambda>t. - t) s;
                s = load_motor MOTOR_2 (\<lambda>t. - t) s;
                s = load_motor MOTOR_3 (\<lambda>t. - t) s;
                s = load_motor MOTOR_4 (\<lambda>t. t) s;
                s = load_motor MOTOR_5 (\<lambda>t. t) s;
                s = load_motor MOTOR_6 (\<lambda>t. t) s
            in st_enable s)
         else if move_type (sps s) = MOVE_TYPE_DWELL then
           (let s = s\<lparr>st := (st s)\<lparr>timer_ticks_downcount := timer_ticks (sps s)\<rparr>\<rparr>
            in s\<lparr>dwell_timer_on := True\<rparr>)
         else s);
          s = s\<lparr>sps := (sps s)\<lparr>exec_state := PREP_BUFFER_OWNED_BY_EXEC\<rparr>\<rparr>
      in st_request_exec_move s)"

subsection \<open>The timer interrupts\<close>

text \<open>The dwell timer interrupt: \<^verbatim>\<open>if (--st.timer_ticks_downcount == 0)\<close>.\<close>

definition dwell_isr :: "machine \<Rightarrow> machine" where
  "dwell_isr s =
     (let s = s\<lparr>st := (st s)\<lparr>timer_ticks_downcount := timer_ticks_downcount (st s) - 1\<rparr>\<rparr>
      in if timer_ticks_downcount (st s) = 0
         then (let s = s\<lparr>dwell_timer_on := False\<rparr> in load_move s)
         else s)"

text \<open>
  One of the six per-motor blocks of the DDA interrupt:
  \<^verbatim>\<open>if (!step.isNull() && (acc += inc) > 0) { acc -= st.timer_ticks_X_substeps; step.set(); }\<close>
  where \<^verbatim>\<open>&&\<close> does not evaluate its right side for a null pin.
\<close>

definition dda_motor :: "env \<Rightarrow> motor \<Rightarrow> machine \<Rightarrow> machine" where
  "dda_motor e i s =
     (if step_isNull e i then s
      else
        (let s = set_phase_accumulator i
                   (phase_accumulator (st_m (st s) i) + phase_increment (st_m (st s) i)) s
         in if 0 <s phase_accumulator (st_m (st s) i)
            then (let s = set_phase_accumulator i
                            (phase_accumulator (st_m (st s) i) - st_timer_ticks_X_substeps (st s)) s
                  in step_set i s)
            else s))"

definition power_down :: "env \<Rightarrow> motor \<Rightarrow> machine \<Rightarrow> machine" where
  "power_down e i s = (if power_mode e i = 1 then enable_set i s else s)"

definition dda_isr :: "env \<Rightarrow> machine \<Rightarrow> machine" where
  "dda_isr e s =
     (let s = s\<lparr>proof_of_timer := False\<rparr>;
          s = dda_motor e MOTOR_1 s;
          s = dda_motor e MOTOR_2 s;
          s = dda_motor e MOTOR_3 s;
          s = dda_motor e MOTOR_4 s;
          s = dda_motor e MOTOR_5 s;
          s = dda_motor e MOTOR_6 s;
          s = step_clear MOTOR_1 s;
          s = step_clear MOTOR_2 s;
          s = step_clear MOTOR_3 s;
          s = step_clear MOTOR_4 s;
          s = step_clear MOTOR_5 s;
          s = step_clear MOTOR_6 s;
          s = s\<lparr>st := (st s)\<lparr>timer_ticks_downcount := timer_ticks_downcount (st s) - 1\<rparr>\<rparr>;
          s = (if timer_ticks_downcount (st s) = 0
               then (let s = power_down e MOTOR_1 s;
                         s = power_down e MOTOR_2 s;
                         s = power_down e MOTOR_3 s;
                         s = power_down e MOTOR_4 s;
                         s = power_down e MOTOR_5 s;
                         s = power_down e MOTOR_6 s;
                         s = st_disable s
                     in load_move s)
               else s)
      in s\<lparr>proof_of_timer := True\<rparr>)"

subsection \<open>Segment preparation\<close>

text \<open>The body of the loop of \<^verbatim>\<open>st_prep_line\<close> for motor \<open>i\<close>.\<close>

definition prep_motor ::
  "env \<Rightarrow> (motor \<Rightarrow> cfloat) \<Rightarrow> motor \<Rightarrow> stPrepSingleton \<Rightarrow> stPrepSingleton" where
  "prep_motor e steps i p =
     (let p = p\<lparr>sps_m := (sps_m p)(i := (sps_m p i)
                  \<lparr>dir := (if flt (steps i) 0 then 1 else 0) XOR polarity e i\<rparr>)\<rparr>
      in p\<lparr>sps_m := (sps_m p)(i := (sps_m p i)
                  \<lparr>prep_phase_increment :=
                     to_uint32 (float_oor e) (fabs (fmul (round_substeps e) (steps i) (real_of_int (DDA_SUBSTEPS e))))\<rparr>)\<rparr>)"

text \<open>\<^verbatim>\<open>for (uint8_t i=0; i<MOTORS; i++)\<close> with \<^verbatim>\<open>MOTORS\<close> = 6.\<close>

definition motors :: "motor list" where
  "motors = [MOTOR_1, MOTOR_2, MOTOR_3, MOTOR_4, MOTOR_5, MOTOR_6]"

definition st_prep_line ::
  "env \<Rightarrow> (motor \<Rightarrow> cfloat) \<Rightarrow> cfloat \<Rightarrow> stPrepSingleton \<Rightarrow> stat \<times> stPrepSingleton" where
  "st_prep_line e steps microseconds p =
     (if exec_state p \<noteq> PREP_BUFFER_OWNED_BY_EXEC then (STAT_INTERNAL_ERROR, p)
      else if \<not> isfinite microseconds then (STAT_ZERO_LENGTH_MOVE, p)
      else if flt microseconds (EPSILON e) then (STAT_ZERO_LENGTH_MOVE, p)
      else
        (let p = p\<lparr>counter_reset_flag := False\<rparr>;
             p = fold (prep_motor e steps) motors p;
             p = p\<lparr>timer_ticks :=
                     to_uint32 (float_oor e) (fmul (round_dda e) (fdiv (round_quot e) microseconds 1000000) (FREQUENCY_DDA e))\<rparr>;
             p = p\<lparr>timer_ticks_X_substeps := timer_ticks p * word_of_int (DDA_SUBSTEPS e)\<rparr>;
             p = (if timer_ticks p * word_of_int (COUNTER_RESET_FACTOR e) < prev_ticks p
                  then p\<lparr>counter_reset_flag := True\<rparr> else p);
             p = p\<lparr>prev_ticks := timer_ticks p\<rparr>;
             p = p\<lparr>move_type := MOVE_TYPE_ALINE\<rparr>
         in (STAT_OK, p)))"

definition st_prep_null :: "stPrepSingleton \<Rightarrow> stPrepSingleton" where
  "st_prep_null p = p\<lparr>move_type := MOVE_TYPE_NULL\<rparr>"

definition st_prep_dwell :: "env \<Rightarrow> cfloat \<Rightarrow> stPrepSingleton \<Rightarrow> stPrepSingleton" where
  "st_prep_dwell e microseconds p =
     (let p = p\<lparr>move_type := MOVE_TYPE_DWELL\<rparr>
      in p\<lparr>timer_ticks :=
             to_uint32 (float_oor e) (fmul (round_dwell e) (fdiv (round_quot e) microseconds 1000000) (FREQUENCY_DWELL e))\<rparr>)"

subsection \<open>Concrete inputs\<close>

text \<open>
  The inputs at which the theorems below are evaluated. \<open>scenario_env\<close> holds the
  constants of the end-to-end scenarios of the specification (\<open>SUBSTEPS = 10\<close>,
  \<open>F_DDA = 200000\<close>, \<open>COUNTER_RESET_FACTOR = 4\<close>, all polarities 0, every motor always
  powered, every step pin wired); the constants the scenarios leave open are
  \<open>F_DWELL = 10000\<close> and \<open>EPSILON = 2^-17\<close>, a small positive value that a float holds
  exactly; every float operation is in binary32. \<open>boot_sps\<close> and \<open>boot_machine\<close> are the zeroed
  structures with \<^verbatim>\<open>exec_state = PREP_BUFFER_OWNED_BY_EXEC\<close>, all pins low and all timers
  stopped. \<open>steps6\<close> is a \<^verbatim>\<open>steps[]\<close> array of six finite values.
\<close>

definition steps6 :: "real \<Rightarrow> real \<Rightarrow> real \<Rightarrow> real \<Rightarrow> real \<Rightarrow> real \<Rightarrow> motor \<Rightarrow> cfloat" where
  "steps6 a b c d f g i =
     Fin (case i of MOTOR_1 \<Rightarrow> a | MOTOR_2 \<Rightarrow> b | MOTOR_3 \<Rightarrow> c
                  | MOTOR_4 \<Rightarrow> d | MOTOR_5 \<Rightarrow> f | MOTOR_6 \<Rightarrow> g)"

definition no_pin :: "motor \<Rightarrow> bool" where "no_pin i = False"

definition zero_byte :: "motor \<Rightarrow> 8 word" where "zero_byte i = 0"

definition oor_zero :: "cfloat \<Rightarrow> 32 word" where "oor_zero x = 0"

definition scenario_env :: env where
  "scenario_env =
     \<lparr>DDA_SUBSTEPS = 10, FREQUENCY_DDA = 200000, FREQUENCY_DWELL = 10000,
      COUNTER_RESET_FACTOR = 4, EPSILON = 1 / 131072,
      polarity = zero_byte, power_mode = zero_byte, step_isNull = no_pin,
      float_oor = oor_zero, round_quot = round_binary32, round_substeps = round_binary32,
      round_dda = round_binary32, round_dwell = round_binary32\<rparr>"

definition zero_run_motor :: "motor \<Rightarrow> stRunMotor" where
  "zero_run_motor i = \<lparr>phase_increment = 0, phase_accumulator = 0, step_count_diagnostic = 0\<rparr>"

definition zero_prep_motor :: "motor \<Rightarrow> stPrepMotor" where
  "zero_prep_motor i = \<lparr>prep_phase_increment = 0, dir = 0\<rparr>"

definition boot_sps :: stPrepSingleton where
  "boot_sps =
     \<lparr>sps_magic_start = 0, move_type = MOVE_TYPE_NULL, exec_state = PREP_BUFFER_OWNED_BY_EXEC,
      counter_reset_flag = False, prev_ticks = 0, timer_ticks = 0, timer_ticks_X_substeps = 0,
      sps_m = zero_prep_motor\<rparr>"

definition low_pins :: "motor \<Rightarrow> bool" where "low_pins i = False"

definition no_pulses :: "motor \<Rightarrow> nat" where "no_pulses i = 0"

definition boot_machine :: machine where
  "boot_machine =
     \<lparr>st = \<lparr>st_magic_start = 0, timer_ticks_downcount = 0, st_timer_ticks_X_substeps = 0,
            st_m = zero_run_motor\<rparr>,
      sps = boot_sps,
      dda_timer_on = False, dwell_timer_on = False, load_timer_pending = False,
      exec_timer_pending = False, proof_of_timer = False, enable = False,
      motor_step = low_pins, motor_dir = low_pins, motor_enable = low_pins,
      step_pulses = no_pulses\<rparr>"

text \<open>A stage that asks for a counter reset: an aline of 200 ticks, no motor moving.\<close>

definition reset_stage :: stPrepSingleton where
  "reset_stage = boot_sps\<lparr>move_type := MOVE_TYPE_ALINE, counter_reset_flag := True,
      timer_ticks := 200, timer_ticks_X_substeps := 2000\<rparr>"

text \<open>A runtime structure in the middle of nothing else: a segment of \<open>ticks\<close> ticks
  whose six motors all have the increment \<open>inc\<close> and the accumulator \<open>acc\<close>.\<close>

definition loaded_motor :: "32 word \<Rightarrow> 32 word \<Rightarrow> motor \<Rightarrow> stRunMotor" where
  "loaded_motor inc acc i =
     \<lparr>phase_increment = inc, phase_accumulator = acc, step_count_diagnostic = 0\<rparr>"

definition segment :: "32 word \<Rightarrow> 32 word \<Rightarrow> 32 word \<Rightarrow> 32 word \<Rightarrow> machine" where
  "segment ticks ticks_x_substeps inc acc =
     boot_machine\<lparr>st := \<lparr>st_magic_start = 0, timer_ticks_downcount = ticks,
                         st_timer_ticks_X_substeps = ticks_x_substeps,
                         st_m = loaded_motor inc acc\<rparr>,
                  dda_timer_on := True\<rparr>"

text \<open>Two calls of \<^verbatim>\<open>st_prep_line\<close> in a row, the second segment ten times shorter than
  the first (scenario 4 of the specification).\<close>

definition slow_stage :: stPrepSingleton where
  "slow_stage = snd (st_prep_line scenario_env (steps6 10 0 0 0 0 0) (Fin 10000) boot_sps)"

definition fast_stage :: stPrepSingleton where
  "fast_stage = snd (st_prep_line scenario_env (steps6 10 0 0 0 0 0) (Fin 1000) slow_stage)"

section \<open>Auxiliary facts\<close>

lemmas ex_defs = steps6_def no_pin_def zero_byte_def oor_zero_def scenario_env_def
  zero_run_motor_def zero_prep_motor_def boot_sps_def low_pins_def no_pulses_def boot_machine_def

lemmas pin_defs = set_phase_increment_def set_phase_accumulator_def step_set_def step_clear_def
  dir_set_def dir_clear_def enable_set_def enable_clear_def

subsection \<open>What the loader changes\<close>

lemma load_motor_frame:
  "sps (load_motor i r s) = sps s"
  "timer_ticks_downcount (st (load_motor i r s)) = timer_ticks_downcount (st s)"
  "st_timer_ticks_X_substeps (st (load_motor i r s)) = st_timer_ticks_X_substeps (st s)"
  "st_magic_start (st (load_motor i r s)) = st_magic_start (st s)"
  "dda_timer_on (load_motor i r s) = dda_timer_on s"
  "dwell_timer_on (load_motor i r s) = dwell_timer_on s"
  "load_timer_pending (load_motor i r s) = load_timer_pending s"
  "exec_timer_pending (load_motor i r s) = exec_timer_pending s"
  "proof_of_timer (load_motor i r s) = proof_of_timer s"
  "enable (load_motor i r s) = enable s"
  "motor_step (load_motor i r s) = motor_step s"
  "step_pulses (load_motor i r s) = step_pulses s"
  by (simp_all add: load_motor_def Let_def pin_defs)

lemma load_motor_acc:
  "phase_accumulator (st_m (st (load_motor i r s)) j) =
     (if j = i \<and> counter_reset_flag (sps s) then r (timer_ticks_downcount (st s))
      else phase_accumulator (st_m (st s) j))"
  by (simp add: load_motor_def Let_def pin_defs)

lemma load_motor_inc:
  "phase_increment (st_m (st (load_motor i r s)) j) =
     (if j = i then prep_phase_increment (sps_m (sps s) i) else phase_increment (st_m (st s) j))"
  by (simp add: load_motor_def Let_def pin_defs)

lemma load_motor_enable:
  "motor_enable (load_motor i r s) j =
     (if j = i \<and> prep_phase_increment (sps_m (sps s) i) \<noteq> 0 then False else motor_enable s j)"
  by (simp add: load_motor_def Let_def pin_defs)

lemma load_motor_dir:
  "motor_dir (load_motor i r s) j =
     (if j = i \<and> prep_phase_increment (sps_m (sps s) i) \<noteq> 0
      then dir (sps_m (sps s) i) \<noteq> 0 else motor_dir s j)"
  by (simp add: load_motor_def Let_def pin_defs)

lemmas load_motor_simps = load_motor_frame load_motor_acc load_motor_inc load_motor_enable
  load_motor_dir

lemma load_move_aline_acc:
  "move_type (sps s) = MOVE_TYPE_ALINE \<Longrightarrow>
   phase_accumulator (st_m (st (load_move s)) i) =
     (if counter_reset_flag (sps s)
      then (if i = MOTOR_1 \<or> i = MOTOR_2 \<or> i = MOTOR_3 then - timer_ticks (sps s)
            else timer_ticks (sps s))
      else phase_accumulator (st_m (st s) i))"
  by (cases i) (simp_all add: load_move_def Let_def st_enable_def st_request_exec_move_def
      load_motor_simps)

lemma load_move_aline_st:
  "move_type (sps s) = MOVE_TYPE_ALINE \<Longrightarrow>
   timer_ticks_downcount (st (load_move s)) = timer_ticks (sps s) \<and>
   st_timer_ticks_X_substeps (st (load_move s)) = timer_ticks_X_substeps (sps s) \<and>
   phase_increment (st_m (st (load_move s)) i) = prep_phase_increment (sps_m (sps s) i)"
  by (cases i) (simp_all add: load_move_def Let_def st_enable_def st_request_exec_move_def
      load_motor_simps)

lemma load_move_aline_enable:
  "move_type (sps s) = MOVE_TYPE_ALINE \<Longrightarrow>
   motor_enable (load_move s) i =
     (if prep_phase_increment (sps_m (sps s) i) \<noteq> 0 then False else motor_enable s i)"
  by (cases i) (simp_all add: load_move_def Let_def st_enable_def st_request_exec_move_def
      load_motor_simps)

lemma load_move_pulses: "step_pulses (load_move s) = step_pulses s"
  by (simp add: load_move_def Let_def st_enable_def st_request_exec_move_def
      load_motor_simps)

lemma load_move_dwell:
  "move_type (sps s) = MOVE_TYPE_DWELL \<Longrightarrow>
   timer_ticks_downcount (st (load_move s)) = timer_ticks (sps s) \<and> dwell_timer_on (load_move s)"
  by (simp add: load_move_def Let_def st_request_exec_move_def)

subsection \<open>Binary32 rounding at given values\<close>

lemma binade_eq:
  "2 powi k \<le> a \<Longrightarrow> a < 2 powi (k + 1) \<Longrightarrow> - 125 \<le> k \<Longrightarrow> k \<le> int n - 126 \<Longrightarrow> binade n a = k"
proof (induction n)
  case 0
  then show ?case by simp
next
  case (Suc n)
  show ?case
  proof (cases "2 powi (int n - 125) \<le> a")
    case True
    have "\<not> k + 1 \<le> int n - 125"
    proof
      assume "k + 1 \<le> int n - 125"
      then have "(2::real) powi (k + 1) \<le> 2 powi (int n - 125)"
        by (intro power_int_increasing) simp_all
      with True Suc.prems(2) show False by simp
    qed
    with Suc.prems(4) have "int n - 125 = k" by simp
    with True show ?thesis by simp
  next
    case False
    have "\<not> int n - 125 \<le> k"
    proof
      assume "int n - 125 \<le> k"
      then have "(2::real) powi (int n - 125) \<le> 2 powi k"
        by (intro power_int_increasing) simp_all
      with False Suc.prems(1) show False by simp
    qed
    then have "k \<le> int n - 126" by simp
    from Suc.IH [OF Suc.prems(1,2,3) this] False show ?thesis by simp
  qed
qed

text \<open>With the exponent \<open>k\<close> of \<open>x\<close> at hand the rounding is a matter of arithmetic.\<close>

lemma round_binary32_at:
  assumes "2 powi k \<le> \<bar>x\<bar>" "\<bar>x\<bar> < 2 powi (k + 1)" "- 125 \<le> k" "k \<le> 127"
  shows "round_binary32 x =
     (let u = 2 powi (k - 23);
          y = of_int (round_half_even (x / u)) * u
      in if 2 powi 128 \<le> y then PInf else if y \<le> - (2 powi 128) then NInf else Fin y)"
  using binade_eq [OF assms(1,2,3), of 253] assms(4) by (simp add: round_binary32_def)

lemma round_binary32_0: "round_binary32 0 = Fin 0"
  by (simp add: round_binary32_def round_half_even_def)

lemmas binary32_at = round_binary32_0 round_half_even_def
  round_binary32_at [of "- 17"] round_binary32_at [of "- 13"] round_binary32_at [of "- 12"]
  round_binary32_at [of "- 11"] round_binary32_at [of "- 10"] round_binary32_at [of "- 7"]
  round_binary32_at [of "- 4"] round_binary32_at [of 0] round_binary32_at [of 1]
  round_binary32_at [of 2] round_binary32_at [of 3] round_binary32_at [of 4]
  round_binary32_at [of 6] round_binary32_at [of 7] round_binary32_at [of 9]
  round_binary32_at [of 10]

subsection \<open>What \<^verbatim>\<open>st_prep_line\<close> stages\<close>

lemma prep_motor_frame:
  "sps_magic_start (prep_motor e steps i p) = sps_magic_start p"
  "move_type (prep_motor e steps i p) = move_type p"
  "exec_state (prep_motor e steps i p) = exec_state p"
  "counter_reset_flag (prep_motor e steps i p) = counter_reset_flag p"
  "prev_ticks (prep_motor e steps i p) = prev_ticks p"
  "timer_ticks (prep_motor e steps i p) = timer_ticks p"
  "timer_ticks_X_substeps (prep_motor e steps i p) = timer_ticks_X_substeps p"
  by (simp_all add: prep_motor_def Let_def)

lemma prep_motor_m:
  "sps_m (prep_motor e steps i p) j =
     (if j = i
      then (sps_m p i)\<lparr>dir := (if flt (steps i) 0 then 1 else 0) XOR polarity e i,
             prep_phase_increment :=
               to_uint32 (float_oor e) (fabs (fmul (round_substeps e) (steps i) (real_of_int (DDA_SUBSTEPS e))))\<rparr>
      else sps_m p j)"
  by (simp add: prep_motor_def Let_def)

lemma fold_prep_motor_frame:
  "sps_magic_start (fold (prep_motor e steps) ms p) = sps_magic_start p"
  "move_type (fold (prep_motor e steps) ms p) = move_type p"
  "exec_state (fold (prep_motor e steps) ms p) = exec_state p"
  "counter_reset_flag (fold (prep_motor e steps) ms p) = counter_reset_flag p"
  "prev_ticks (fold (prep_motor e steps) ms p) = prev_ticks p"
  "timer_ticks (fold (prep_motor e steps) ms p) = timer_ticks p"
  "timer_ticks_X_substeps (fold (prep_motor e steps) ms p) = timer_ticks_X_substeps p"
  by (induction ms arbitrary: p; simp add: prep_motor_frame)+

lemma fold_prep_motor_m:
  "sps_m (fold (prep_motor e steps) motors p) j =
     (sps_m p j)\<lparr>dir := (if flt (steps j) 0 then 1 else 0) XOR polarity e j,
        prep_phase_increment :=
          to_uint32 (float_oor e) (fabs (fmul (round_substeps e) (steps j) (real_of_int (DDA_SUBSTEPS e))))\<rparr>"
  by (cases j) (simp_all add: motors_def prep_motor_m)

text \<open>The stage after an accepted call, field by field.\<close>

lemma st_prep_line_ok:
  assumes "exec_state p = PREP_BUFFER_OWNED_BY_EXEC" "isfinite us" "\<not> flt us (EPSILON e)"
  defines "t \<equiv> to_uint32 (float_oor e) (fmul (round_dda e) (fdiv (round_quot e) us 1000000) (FREQUENCY_DDA e))"
  shows "fst (st_prep_line e steps us p) = STAT_OK"
    and "timer_ticks (snd (st_prep_line e steps us p)) = t"
    and "timer_ticks_X_substeps (snd (st_prep_line e steps us p)) = t * word_of_int (DDA_SUBSTEPS e)"
    and "counter_reset_flag (snd (st_prep_line e steps us p)) \<longleftrightarrow>
           t * word_of_int (COUNTER_RESET_FACTOR e) < prev_ticks p"
    and "prev_ticks (snd (st_prep_line e steps us p)) = t"
    and "move_type (snd (st_prep_line e steps us p)) = MOVE_TYPE_ALINE"
    and "exec_state (snd (st_prep_line e steps us p)) = PREP_BUFFER_OWNED_BY_EXEC"
    and "sps_m (snd (st_prep_line e steps us p)) j =
           (sps_m p j)\<lparr>dir := (if flt (steps j) 0 then 1 else 0) XOR polarity e j,
              prep_phase_increment :=
                to_uint32 (float_oor e) (fabs (fmul (round_substeps e) (steps j) (real_of_int (DDA_SUBSTEPS e))))\<rparr>"
  using assms
  by (simp_all add: st_prep_line_def Let_def fold_prep_motor_frame fold_prep_motor_m)

lemma st_prep_line_status:
  "fst (st_prep_line e steps us p) =
     (if exec_state p \<noteq> PREP_BUFFER_OWNED_BY_EXEC then STAT_INTERNAL_ERROR
      else if \<not> isfinite us \<or> flt us (EPSILON e) then STAT_ZERO_LENGTH_MOVE
      else STAT_OK)"
  by (simp add: st_prep_line_def Let_def)

lemma to_uint32_Fin:
  assumes "0 \<le> r" "r < 2 ^ 32"
  shows "uint (to_uint32 oor (Fin r)) = \<lfloor>r\<rfloor>"
proof -
  have lo: "0 \<le> \<lfloor>r\<rfloor>" using assms(1) by simp
  have "\<lfloor>r\<rfloor> < 2 ^ 32" using assms(2) by (simp add: floor_less_iff)
  then have "take_bit 32 \<lfloor>r\<rfloor> = \<lfloor>r\<rfloor>" using lo by (simp add: take_bit_int_eq_self)
  then show ?thesis using assms by (simp add: to_uint32_def trunc_def uint_word_of_int_eq)
qed


lemma slow_stage_fields:
  "exec_state slow_stage = PREP_BUFFER_OWNED_BY_EXEC" "prev_ticks slow_stage = 2000"
  by (simp_all add: slow_stage_def st_prep_line_ok to_uint32_def trunc_def scenario_env_def
      boot_sps_def binary32_at Let_def)

lemma fast_stage_fields:
  "move_type fast_stage = MOVE_TYPE_ALINE" "counter_reset_flag fast_stage"
  "timer_ticks fast_stage = 200" "timer_ticks_X_substeps fast_stage = 2000"
  "prep_phase_increment (sps_m fast_stage MOTOR_4) = 0"
  by (simp_all add: fast_stage_def st_prep_line_ok slow_stage_fields to_uint32_def trunc_def
      scenario_env_def steps6_def binary32_at Let_def)

subsection \<open>What one DDA tick changes\<close>

lemma dda_motor_frame:
  "sps (dda_motor e i s) = sps s"
  "timer_ticks_downcount (st (dda_motor e i s)) = timer_ticks_downcount (st s)"
  "st_timer_ticks_X_substeps (st (dda_motor e i s)) = st_timer_ticks_X_substeps (st s)"
  "phase_increment (st_m (st (dda_motor e i s)) j) = phase_increment (st_m (st s) j)"
  "motor_enable (dda_motor e i s) = motor_enable s"
  by (simp_all add: dda_motor_def Let_def pin_defs)

lemma dda_motor_acc:
  "phase_accumulator (st_m (st (dda_motor e i s)) j) =
     (if j = i \<and> \<not> step_isNull e i
      then (if 0 <s phase_accumulator (st_m (st s) i) + phase_increment (st_m (st s) i)
            then phase_accumulator (st_m (st s) i) + phase_increment (st_m (st s) i)
                   - st_timer_ticks_X_substeps (st s)
            else phase_accumulator (st_m (st s) i) + phase_increment (st_m (st s) i))
      else phase_accumulator (st_m (st s) j))"
  by (simp add: dda_motor_def Let_def pin_defs)

lemma dda_motor_pulses:
  "step_pulses (dda_motor e i s) j =
     (if j = i \<and> \<not> step_isNull e i
         \<and> 0 <s phase_accumulator (st_m (st s) i) + phase_increment (st_m (st s) i)
      then Suc (step_pulses s j) else step_pulses s j)"
  by (simp add: dda_motor_def Let_def pin_defs)

lemma power_down_frame:
  "st (power_down e i s) = st s" "sps (power_down e i s) = sps s"
  "step_pulses (power_down e i s) = step_pulses s"
  by (simp_all add: power_down_def pin_defs)

lemma st_disable_frame:
  "sps (st_disable s) = sps s" "step_pulses (st_disable s) = step_pulses s"
  by (simp_all add: st_disable_def Let_def pin_defs)

lemma step_clear_frame:
  "st (step_clear i s) = st s" "sps (step_clear i s) = sps s"
  "step_pulses (step_clear i s) = step_pulses s"
  by (simp_all add: pin_defs)

lemmas dda_simps = dda_motor_frame dda_motor_acc dda_motor_pulses power_down_frame
  st_disable_frame step_clear_frame load_move_pulses

text \<open>A tick emits a pulse on a wired motor exactly when accumulator plus increment is
  positive, whether or not the tick ends the segment.\<close>

lemma dda_isr_pulses:
  "step_pulses (dda_isr e s) i =
     (if \<not> step_isNull e i
         \<and> 0 <s phase_accumulator (st_m (st s) i) + phase_increment (st_m (st s) i)
      then Suc (step_pulses s i) else step_pulses s i)"
  by (cases i) (simp_all add: dda_isr_def Let_def dda_simps)

text \<open>A tick that does not end the segment leaves the increments and the scaled tick
  count alone and counts down by one.\<close>

lemma dda_isr_running:
  assumes "timer_ticks_downcount (st s) \<noteq> 1"
  shows "timer_ticks_downcount (st (dda_isr e s)) = timer_ticks_downcount (st s) - 1"
    and "st_timer_ticks_X_substeps (st (dda_isr e s)) = st_timer_ticks_X_substeps (st s)"
    and "phase_increment (st_m (st (dda_isr e s)) i) = phase_increment (st_m (st s) i)"
    and "phase_accumulator (st_m (st (dda_isr e s)) i) =
     (if \<not> step_isNull e i
      then (if 0 <s phase_accumulator (st_m (st s) i) + phase_increment (st_m (st s) i)
            then phase_accumulator (st_m (st s) i) + phase_increment (st_m (st s) i)
                   - st_timer_ticks_X_substeps (st s)
            else phase_accumulator (st_m (st s) i) + phase_increment (st_m (st s) i))
      else phase_accumulator (st_m (st s) i))"
    and "sps (dda_isr e s) = sps s"
  using assms by (cases i; simp add: dda_isr_def Let_def dda_simps)+

subsection \<open>Signed 32-bit arithmetic without overflow\<close>

lemma sint32_add:
  "- (2 ^ 31) \<le> sint a + sint b \<Longrightarrow> sint a + sint b < 2 ^ 31 \<Longrightarrow>
   sint (a + b :: 32 word) = sint a + sint b"
  by (simp add: sint_word_ariths signed_take_bit_int_eq_self)

lemma sint32_sub:
  "- (2 ^ 31) \<le> sint a - sint b \<Longrightarrow> sint a - sint b < 2 ^ 31 \<Longrightarrow>
   sint (a - b :: 32 word) = sint a - sint b"
  by (simp add: sint_word_ariths signed_take_bit_int_eq_self)

lemma sint32_range: "- (2 ^ 31) \<le> sint (a :: 32 word) \<and> sint a < 2 ^ 31"
  using sint_greater_eq [of a] sint_less [of a] by simp

subsection \<open>The accumulator over a segment\<close>

text \<open>
  After \<open>n\<close> ticks and \<open>k\<close> pulses the accumulator that started at \<open>- D\<close> holds
  \<open>n * I - (k + 1) * D\<close>, and it stays between \<open>- D\<close> and 0 as long as the increment
  is at most \<open>D\<close>.
\<close>

lemma acc_step:
  fixes a I D :: int and n k :: nat
  assumes "a = int n * I - (int k + 1) * D" "- D \<le> a" "a \<le> 0" "0 \<le> I" "I \<le> D"
  shows "0 < a + I \<Longrightarrow>
           a + I - D = int (Suc n) * I - (int (Suc k) + 1) * D \<and> - D < a + I - D \<and> a + I - D \<le> 0"
    and "\<not> 0 < a + I \<Longrightarrow>
           a + I = int (Suc n) * I - (int k + 1) * D \<and> - D \<le> a + I \<and> a + I \<le> 0
           \<and> (0 < I \<longrightarrow> - D < a + I)"
  using assms by (auto simp add: algebra_simps)

lemma pulse_count_unique:
  fixes T S I :: int and k :: nat
  assumes "0 < T" "0 < S" "0 \<le> I"
    and eq: "a = T * I - (int k + 1) * (T * S)"
    and lo: "- (T * S) \<le> a" and hi: "a \<le> 0" and strict: "0 < I \<longrightarrow> - (T * S) < a"
  shows "k = nat ((I - 1) div S)"
proof -
  have a: "a = T * (I - (int k + 1) * S)" using eq by (simp add: algebra_simps)
  have up: "I \<le> (int k + 1) * S"
  proof -
    have "T * (I - (int k + 1) * S) \<le> 0" using a hi by simp
    then have "I - (int k + 1) * S \<le> 0" using \<open>0 < T\<close> by (simp add: mult_le_0_iff)
    then show ?thesis by simp
  qed
  show ?thesis
  proof (cases "I = 0")
    case True
    have "T * (- S) \<le> T * (I - (int k + 1) * S)" using lo a by simp
    then have "- S \<le> I - (int k + 1) * S" using \<open>0 < T\<close> by (simp only: mult_le_cancel_left_pos)
    then have "int k * S \<le> 0" using True by (simp add: algebra_simps)
    then have "int k \<le> 0" using \<open>0 < S\<close> by (simp add: mult_le_0_iff)
    then have "k = 0" by simp
    moreover have "(I - 1) div S = - 1" using True \<open>0 < S\<close>
      by (simp add: zdiv_mono1_neg div_eq_minus1)
    ultimately show ?thesis by simp
  next
    case False
    then have "0 < I" using \<open>0 \<le> I\<close> by simp
    then have "T * (- S) < T * (I - (int k + 1) * S)" using strict a by simp
    then have "- S < I - (int k + 1) * S" using \<open>0 < T\<close> by (simp only: mult_less_cancel_left_pos)
    then have low: "int k * S \<le> I - 1" by (simp add: algebra_simps)
    have high: "I - 1 < (int k + 1) * S" using up by simp
    have "(I - 1) div S = int k"
    proof (rule int_div_pos_eq [of _ _ _ "I - 1 - int k * S"])
      show "I - 1 = S * int k + (I - 1 - int k * S)" by (simp add: algebra_simps)
      show "0 \<le> I - 1 - int k * S" using low by simp
      show "I - 1 - int k * S < S" using high by (simp add: algebra_simps)
    qed
    then show ?thesis by simp
  qed
qed

lemma dda_run_invariant:
  fixes T S I :: int
  assumes pin: "\<not> step_isNull e i"
    and T: "0 < T" and S: "0 < S" and bound: "T * S < 2 ^ 31"
    and dc: "sint (timer_ticks_downcount (st s)) = T"
    and tx: "sint (st_timer_ticks_X_substeps (st s)) = T * S"
    and acc: "sint (phase_accumulator (st_m (st s) i)) = - (T * S)"
    and inc: "sint (phase_increment (st_m (st s) i)) = I" and I: "0 \<le> I" "I \<le> T * S"
  shows "int n < T \<Longrightarrow>
     sint (timer_ticks_downcount (st ((dda_isr e ^^ n) s))) = T - int n \<and>
     st_timer_ticks_X_substeps (st ((dda_isr e ^^ n) s)) = st_timer_ticks_X_substeps (st s) \<and>
     phase_increment (st_m (st ((dda_isr e ^^ n) s)) i) = phase_increment (st_m (st s) i) \<and>
     (\<exists>k. step_pulses ((dda_isr e ^^ n) s) i = step_pulses s i + k \<and>
          sint (phase_accumulator (st_m (st ((dda_isr e ^^ n) s)) i))
            = int n * I - (int k + 1) * (T * S) \<and>
          - (T * S) \<le> sint (phase_accumulator (st_m (st ((dda_isr e ^^ n) s)) i)) \<and>
          sint (phase_accumulator (st_m (st ((dda_isr e ^^ n) s)) i)) \<le> 0)"
proof (induction n)
  case 0
  have "step_pulses s i = step_pulses s i + 0 \<and>
        sint (phase_accumulator (st_m (st s) i)) = int 0 * I - (int 0 + 1) * (T * S) \<and>
        - (T * S) \<le> sint (phase_accumulator (st_m (st s) i)) \<and>
        sint (phase_accumulator (st_m (st s) i)) \<le> 0"
    using acc T S by simp
  then show ?case using dc by simp
next
  case (Suc n)
  define s' where "s' = (dda_isr e ^^ n) s"
  define a where "a = sint (phase_accumulator (st_m (st s') i))"
  from Suc.prems have n: "int n < T" and n2: "int n + 1 < T" by simp_all
  from Suc.IH [OF n] obtain k where
    dc': "sint (timer_ticks_downcount (st s')) = T - int n"
    and tx': "st_timer_ticks_X_substeps (st s') = st_timer_ticks_X_substeps (st s)"
    and inc': "phase_increment (st_m (st s') i) = phase_increment (st_m (st s) i)"
    and k: "step_pulses s' i = step_pulses s i + k"
    and a: "a = int n * I - (int k + 1) * (T * S)" and lo: "- (T * S) \<le> a" and hi: "a \<le> 0"
    unfolding s'_def a_def by blast
  have run: "timer_ticks_downcount (st s') \<noteq> 1"
  proof
    assume "timer_ticks_downcount (st s') = 1"
    then have "sint (timer_ticks_downcount (st s')) = 1" by simp
    with dc' n2 show False by simp
  qed
  note step = dda_isr_running [OF run]
  note pul = dda_isr_pulses [of e s' i]
  have sum: "sint (phase_accumulator (st_m (st s') i) + phase_increment (st_m (st s') i)) = a + I"
    unfolding a_def inc' inc [symmetric]
    using lo hi I bound unfolding a_def inc [symmetric] by (intro sint32_add) simp_all
  have fires: "0 <s phase_accumulator (st_m (st s') i) + phase_increment (st_m (st s') i)
                 \<longleftrightarrow> 0 < a + I"
    by (simp add: word_sless_alt sum)
  have dcn: "sint (timer_ticks_downcount (st s') - 1) = T - int (Suc n)"
  proof -
    have r: "- (2 ^ 31) \<le> T - int n - 1" "T - int n - 1 < 2 ^ 31"
      using sint32_range [of "timer_ticks_downcount (st s')"] dc' n by simp_all
    have "sint (timer_ticks_downcount (st s') - 1) = sint (timer_ticks_downcount (st s')) - sint (1 :: 32 word)"
      using r dc' by (intro sint32_sub) simp_all
    then show ?thesis using dc' by simp
  qed
  have nxt: "(dda_isr e ^^ Suc n) s = dda_isr e s'" by (simp add: s'_def)
  have A: "sint (timer_ticks_downcount (st (dda_isr e s'))) = T - int (Suc n)"
    using step(1) dcn by simp
  have B: "st_timer_ticks_X_substeps (st (dda_isr e s')) = st_timer_ticks_X_substeps (st s)"
    using step(2) tx' by simp
  have C: "phase_increment (st_m (st (dda_isr e s')) i) = phase_increment (st_m (st s) i)"
    using step(3) inc' by simp
  show ?case
  proof (cases "0 < a + I")
    case True
    have sub: "sint (phase_accumulator (st_m (st s') i) + phase_increment (st_m (st s') i)
                 - st_timer_ticks_X_substeps (st s')) = a + I - T * S"
      using lo hi I bound True sum tx tx'
        sint32_sub [of "phase_accumulator (st_m (st s') i) + phase_increment (st_m (st s') i)"
                       "st_timer_ticks_X_substeps (st s')"]
      by simp
    have acc': "sint (phase_accumulator (st_m (st (dda_isr e s')) i)) = a + I - T * S"
      using step(4) [of e i] pin fires True sub by simp
    have P: "step_pulses (dda_isr e s') i = step_pulses s i + Suc k"
      using pul fires True pin k by simp
    show ?thesis
      unfolding nxt using A B C P acc' acc_step(1) [OF a lo hi I True]
      by (intro conjI exI [of _ "Suc k"]) simp_all
  next
    case False
    have acc': "sint (phase_accumulator (st_m (st (dda_isr e s')) i)) = a + I"
      using step(4) [of e i] pin fires False sum by simp
    have P: "step_pulses (dda_isr e s') i = step_pulses s i + k"
      using pul fires False pin k by simp
    show ?thesis
      unfolding nxt using A B C P acc' acc_step(2) [OF a lo hi I False]
      by (intro conjI exI [of _ k]) simp_all
  qed
qed

lemma dda_run_pulses:
  fixes T S I :: int
  assumes pin: "\<not> step_isNull e i"
    and T: "0 < T" and S: "0 < S" and bound: "T * S < 2 ^ 31"
    and dc: "sint (timer_ticks_downcount (st s)) = T"
    and tx: "sint (st_timer_ticks_X_substeps (st s)) = T * S"
    and acc: "sint (phase_accumulator (st_m (st s) i)) = - (T * S)"
    and inc: "sint (phase_increment (st_m (st s) i)) = I" and I: "0 \<le> I" "I \<le> T * S"
  shows "step_pulses ((dda_isr e ^^ nat T) s) i = step_pulses s i + nat ((I - 1) div S)"
proof -
  define n where "n = nat (T - 1)"
  define s' where "s' = (dda_isr e ^^ n) s"
  define a where "a = sint (phase_accumulator (st_m (st s') i))"
  have n: "int n < T" and Tn: "nat T = Suc n" and nT: "int (Suc n) = T"
    using T by (simp_all add: n_def)
  from dda_run_invariant [OF pin T S bound dc tx acc inc I n] obtain k where
    inc': "phase_increment (st_m (st s') i) = phase_increment (st_m (st s) i)"
    and k: "step_pulses s' i = step_pulses s i + k"
    and a: "a = int n * I - (int k + 1) * (T * S)" and lo: "- (T * S) \<le> a" and hi: "a \<le> 0"
    unfolding s'_def a_def by blast
  have sum: "sint (phase_accumulator (st_m (st s') i) + phase_increment (st_m (st s') i)) = a + I"
    unfolding a_def inc' inc [symmetric]
    using lo hi I bound unfolding a_def inc [symmetric] by (intro sint32_add) simp_all
  have fires: "0 <s phase_accumulator (st_m (st s') i) + phase_increment (st_m (st s') i)
                 \<longleftrightarrow> 0 < a + I"
    by (simp add: word_sless_alt sum)
  have nxt: "(dda_isr e ^^ nat T) s = dda_isr e s'" by (simp add: s'_def Tn)
  note pul = dda_isr_pulses [of e s' i]
  show ?thesis
  proof (cases "0 < a + I")
    case True
    have P: "step_pulses (dda_isr e s') i = step_pulses s i + Suc k"
      using pul fires True pin k by simp
    note h = acc_step(1) [OF a lo hi I True, unfolded nT]
    have e1: "a + I - T * S = T * I - (int (Suc k) + 1) * (T * S)" using h by blast
    have e2: "- (T * S) \<le> a + I - T * S" using h by (elim conjE) linarith
    have e3: "a + I - T * S \<le> 0" using h by blast
    have e4: "0 < I \<longrightarrow> - (T * S) < a + I - T * S" using h by blast
    from pulse_count_unique [OF T S I(1) e1 e2 e3 e4] show ?thesis unfolding nxt P by simp
  next
    case False
    have P: "step_pulses (dda_isr e s') i = step_pulses s i + k"
      using pul fires False pin k by simp
    note h = acc_step(2) [OF a lo hi I False, unfolded nT]
    have e1: "a + I = T * I - (int k + 1) * (T * S)" using h by blast
    have e2: "- (T * S) \<le> a + I" using h by blast
    have e3: "a + I \<le> 0" using h by blast
    have e4: "0 < I \<longrightarrow> - (T * S) < a + I" using h by blast
    from pulse_count_unique [OF T S I(1) e1 e2 e3 e4] show ?thesis unfolding nxt P by simp
  qed
qed

subsection \<open>What \<^verbatim>\<open>st_disable\<close> changes\<close>

lemma st_disable_motor_3: "motor_enable (st_disable s) MOTOR_3 = motor_enable s MOTOR_3"
  by (simp add: st_disable_def pin_defs)

lemma st_disable_others:
  "\<not> dda_timer_on (st_disable s) \<and> enable (st_disable s) \<and>
   (i \<noteq> MOTOR_3 \<longrightarrow> motor_enable (st_disable s) i) \<and>
   phase_increment (st_m (st (st_disable s)) i) = 0"
  by (cases i) (simp_all add: st_disable_def pin_defs)

section \<open>The claims\<close>

subsection \<open>C1: pulses of one segment\<close>

text \<open>
  C1, as amended. A segment of \<open>T\<close> ticks is loaded with
  \<^verbatim>\<open>timer_ticks_X_substeps\<close> = \<open>T * S\<close> (below \<open>2^31\<close>), and a motor with a wired step pin
  has its accumulator at \<open>- (T * S)\<close> and an increment \<open>I\<close> with \<open>0 \<le> I \<le> T * S\<close>, at
  most one step per tick. Then the \<open>T\<close> DDA ticks of the segment emit exactly
  \<open>(I - 1) div S\<close> pulses on that motor, and none when \<open>I = 0\<close>. That is
  \<open>I div S\<close> when \<open>S\<close> does not divide \<open>I\<close>, and one pulse less when it does: a
  pulse needs the accumulator strictly above 0.
\<close>

theorem dda_segment_pulse_count:
  fixes T S I :: int
  assumes "\<not> step_isNull e i"
    and "0 < T" and "0 < S" and "T * S < 2 ^ 31"
    and "sint (timer_ticks_downcount (st s)) = T"
    and "sint (st_timer_ticks_X_substeps (st s)) = T * S"
    and "sint (phase_accumulator (st_m (st s) i)) = - (T * S)"
    and "sint (phase_increment (st_m (st s) i)) = I" and "0 \<le> I" "I \<le> T * S"
  shows "step_pulses ((dda_isr e ^^ nat T) s) i = step_pulses s i + nat ((I - 1) div S)"
  using assms by (rule dda_run_pulses)

text \<open>The first scenario's numbers, with the accumulator at \<open>- 2000\<close>: 99 pulses.\<close>

theorem dda_segment_pulse_count_witness:
  "step_pulses ((dda_isr scenario_env ^^ 200) (segment 200 2000 1000 (- 2000))) MOTOR_1 = 99"
  using dda_segment_pulse_count
          [of scenario_env MOTOR_1 200 10 "segment 200 2000 1000 (- 2000)" 1000]
  by (simp add: segment_def loaded_motor_def scenario_env_def no_pin_def boot_machine_def
      no_pulses_def)

text \<open>
  C1 as stated fails: two ticks, \<open>SUBSTEPS = 10\<close>, accumulator at \<open>- 20\<close>, increment
  10. The accumulator goes to \<open>- 10\<close> and then to 0, which is not above 0: no pulse,
  where \<open>10 div 10 = 1\<close> were claimed.
\<close>

theorem dda_two_tick_segment:
  "step_pulses ((dda_isr scenario_env ^^ 2) (segment 2 20 10 (- 20))) MOTOR_1 = 0 \<and>
   (10 :: int) div DDA_SUBSTEPS scenario_env = 1"
proof -
  have run: "timer_ticks_downcount (st (segment 2 20 10 (- 20))) \<noteq> 1"
    by (simp add: segment_def)
  have "step_pulses ((dda_isr scenario_env ^^ 2) (segment 2 20 10 (- 20))) MOTOR_1 = 0"
    by (simp add: numeral_2_eq_2 dda_isr_pulses dda_isr_running [OF run] word_sless_alt)
       (simp add: segment_def loaded_motor_def scenario_env_def no_pin_def boot_machine_def
      no_pulses_def)
  then show ?thesis by (simp add: scenario_env_def)
qed

text \<open>
  The bound \<open>I \<le> T * S\<close> is needed as well, since a tick emits at most one pulse:
  one tick with the increment 30 emits one pulse, not three.
\<close>

lemma dda_overspeed_segment:
  "step_pulses ((dda_isr scenario_env ^^ 1) (segment 1 10 30 (- 10))) MOTOR_1 = 1 \<and>
   (30 :: int) div DDA_SUBSTEPS scenario_env = 3"
  by (simp add: dda_isr_pulses word_sless_alt)
     (simp add: segment_def loaded_motor_def scenario_env_def no_pin_def boot_machine_def
      no_pulses_def)

subsection \<open>C2: the accumulator on a counter reset\<close>

text \<open>
  C2. The loader is to set every motor's accumulator to minus the tick count on a
  counter reset. The blocks of motors 1 to 3 do; those of motors 4 to 6 store the tick
  count itself: loading \<open>reset_stage\<close> (200 ticks) leaves the accumulator of motor 4
  at 200, not at \<open>- 200\<close>.
\<close>

theorem load_move_motor_4_sign:
  "phase_accumulator (st_m (st (load_move (boot_machine\<lparr>sps := reset_stage\<rparr>))) MOTOR_4) = 200 \<and>
   timer_ticks_downcount (st (load_move (boot_machine\<lparr>sps := reset_stage\<rparr>))) = 200 \<and>
   (200 :: 32 word) \<noteq> - 200"
  by (simp add: load_move_aline_acc load_move_aline_st reset_stage_def boot_sps_def)

subsection \<open>C3: an idle motor\<close>

text \<open>
  C3. A motor with a staged increment of 0 is to see no pulse over the segment, also
  when the segment is loaded with the counter reset. After a segment of 2000 ticks,
  \<^verbatim>\<open>st_prep_line\<close> stages one of 200 ticks with the reset flag and nothing for motor 4;
  the loader puts the accumulator of motor 4 at \<open>+ 200\<close>, and the first DDA tick
  emits a pulse on motor 4.
\<close>

theorem idle_motor_4_pulses_after_reset:
  "prep_phase_increment (sps_m fast_stage MOTOR_4) = 0 \<and>
   counter_reset_flag fast_stage \<and>
   step_pulses (load_move (boot_machine\<lparr>sps := fast_stage\<rparr>)) MOTOR_4 = 0 \<and>
   step_pulses (dda_isr scenario_env (load_move (boot_machine\<lparr>sps := fast_stage\<rparr>))) MOTOR_4 = 1"
  by (simp add: fast_stage_fields dda_isr_pulses load_move_pulses load_move_aline_acc
      load_move_aline_st word_sless_alt)
     (simp add: boot_machine_def no_pulses_def scenario_env_def no_pin_def)

subsection \<open>C4: the error returns of \<^verbatim>\<open>st_prep_line\<close>\<close>

text \<open>
  C4, as amended. \<^verbatim>\<open>st_prep_line\<close> returns \<^verbatim>\<open>STAT_INTERNAL_ERROR\<close> whenever the stage
  is not owned by exec; otherwise it returns \<^verbatim>\<open>STAT_ZERO_LENGTH_MOVE\<close> whenever
  \<open>microseconds\<close> is not finite or is strictly below \<^verbatim>\<open>EPSILON\<close>; and whenever the
  status is not \<^verbatim>\<open>STAT_OK\<close> the whole stage is left as it was.
\<close>

theorem st_prep_line_errors:
  "(exec_state p \<noteq> PREP_BUFFER_OWNED_BY_EXEC \<longrightarrow>
      st_prep_line e steps us p = (STAT_INTERNAL_ERROR, p)) \<and>
   (exec_state p = PREP_BUFFER_OWNED_BY_EXEC \<and> (\<not> isfinite us \<or> flt us (EPSILON e)) \<longrightarrow>
      st_prep_line e steps us p = (STAT_ZERO_LENGTH_MOVE, p)) \<and>
   (fst (st_prep_line e steps us p) \<noteq> STAT_OK \<longrightarrow> snd (st_prep_line e steps us p) = p)"
  by (auto simp add: st_prep_line_def Let_def)

theorem st_prep_line_errors_witness:
  "st_prep_line scenario_env (steps6 1 0 0 0 0 0) (Fin 1000)
      (boot_sps\<lparr>exec_state := PREP_BUFFER_OWNED_BY_LOADER\<rparr>)
     = (STAT_INTERNAL_ERROR, boot_sps\<lparr>exec_state := PREP_BUFFER_OWNED_BY_LOADER\<rparr>) \<and>
   st_prep_line scenario_env (steps6 1 0 0 0 0 0) (Fin 0) boot_sps
     = (STAT_ZERO_LENGTH_MOVE, boot_sps) \<and>
   st_prep_line scenario_env (steps6 1 0 0 0 0 0) NaN boot_sps
     = (STAT_ZERO_LENGTH_MOVE, boot_sps)"
  using st_prep_line_errors
          [of "boot_sps\<lparr>exec_state := PREP_BUFFER_OWNED_BY_LOADER\<rparr>" scenario_env
              "steps6 1 0 0 0 0 0" "Fin 1000"]
        st_prep_line_errors [of boot_sps scenario_env "steps6 1 0 0 0 0 0" "Fin 0"]
        st_prep_line_errors [of boot_sps scenario_env "steps6 1 0 0 0 0 0" NaN]
  by (simp add: boot_sps_def scenario_env_def)

text \<open>C4 as stated fails at \<open>microseconds = EPSILON\<close>: the test is \<^verbatim>\<open>microseconds < EPSILON\<close>,
  and the call is accepted.\<close>

theorem st_prep_line_at_EPSILON:
  "exec_state boot_sps = PREP_BUFFER_OWNED_BY_EXEC \<and>
   fst (st_prep_line scenario_env (steps6 1 0 0 0 0 0) (Fin (EPSILON scenario_env)) boot_sps)
     = STAT_OK \<and>
   fst (st_prep_line scenario_env (steps6 1 0 0 0 0 0) (Fin (EPSILON scenario_env)) boot_sps)
     \<noteq> STAT_ZERO_LENGTH_MOVE"
  by (simp add: st_prep_line_status ex_defs)

subsection \<open>C5: the staged tick count\<close>

text \<open>
  C5, as amended. For every finite \<open>microseconds\<close> of at least \<^verbatim>\<open>EPSILON\<close>, accepted
  by \<^verbatim>\<open>st_prep_line\<close>, the staged \<^verbatim>\<open>timer_ticks\<close> is the float product
  \<^verbatim>\<open>(microseconds/1000000) * FREQUENCY_DDA\<close>, as the machine computes it with its two
  roundings, truncated to an integer (rounded down), not rounded to the nearest,
  whenever that product \<open>x\<close> is finite and from 0 up to below \<open>2^32\<close>.
\<close>

theorem st_prep_line_timer_ticks:
  assumes "exec_state p = PREP_BUFFER_OWNED_BY_EXEC"
    and "EPSILON e \<le> us"
    and "fmul (round_dda e) (fdiv (round_quot e) (Fin us) 1000000) (FREQUENCY_DDA e) = Fin x"
    and "0 \<le> x" and "x < 2 ^ 32"
  shows "fst (st_prep_line e steps (Fin us) p) = STAT_OK \<and>
         uint (timer_ticks (snd (st_prep_line e steps (Fin us) p))) = \<lfloor>x\<rfloor>"
  using assms by (simp add: st_prep_line_ok st_prep_line_status to_uint32_Fin)

text \<open>In binary32, 135 microseconds at 200000 Hz are 26.999998 ticks: 26 are staged.\<close>

theorem st_prep_line_timer_ticks_witness:
  "fst (st_prep_line scenario_env (steps6 1 0 0 0 0 0) (Fin 135) boot_sps) = STAT_OK \<and>
   uint (timer_ticks (snd (st_prep_line scenario_env (steps6 1 0 0 0 0 0) (Fin 135) boot_sps))) = 26"
  using st_prep_line_timer_ticks
          [where p = boot_sps and e = scenario_env and us = 135 and x = "14155775 / 2 ^ 19"
             and steps = "steps6 1 0 0 0 0 0"]
  by (simp add: scenario_env_def boot_sps_def binary32_at Let_def)

text \<open>C5 as stated fails at 8 microseconds: the product is 1.6 (1.60000002 in binary32),
  the staged count is 1 and the nearest integer is 2.\<close>

theorem st_prep_line_truncates_8us:
  "fst (st_prep_line scenario_env (steps6 1 0 0 0 0 0) (Fin 8) boot_sps) = STAT_OK \<and>
   uint (timer_ticks (snd (st_prep_line scenario_env (steps6 1 0 0 0 0 0) (Fin 8) boot_sps))) = 1 \<and>
   fmul (round_dda scenario_env) (fdiv (round_quot scenario_env) (Fin 8) 1000000)
     (FREQUENCY_DDA scenario_env) = Fin (13421773 / 2 ^ 23) \<and>
   round (13421773 / 2 ^ 23 :: real) = 2 \<and>
   round ((8 / 1000000) * FREQUENCY_DDA scenario_env) = 2"
  by (simp add: st_prep_line_ok st_prep_line_status to_uint32_def trunc_def round_def
      scenario_env_def boot_sps_def binary32_at Let_def)

subsection \<open>C6: the counter reset flag\<close>

text \<open>
  C6. After every call of \<^verbatim>\<open>st_prep_line\<close> that returns \<^verbatim>\<open>STAT_OK\<close>, the counter reset
  flag is set if and only if the new \<^verbatim>\<open>timer_ticks\<close> times \<^verbatim>\<open>COUNTER_RESET_FACTOR\<close>, in
  unsigned 32-bit arithmetic, is strictly less than the \<^verbatim>\<open>prev_ticks\<close> of before the
  call, and \<^verbatim>\<open>prev_ticks\<close> is then the new \<^verbatim>\<open>timer_ticks\<close>.
\<close>

theorem st_prep_line_counter_reset:
  assumes "fst (st_prep_line e steps us p) = STAT_OK"
  shows "(counter_reset_flag (snd (st_prep_line e steps us p)) \<longleftrightarrow>
            timer_ticks (snd (st_prep_line e steps us p)) * word_of_int (COUNTER_RESET_FACTOR e)
              < prev_ticks p) \<and>
         prev_ticks (snd (st_prep_line e steps us p)) = timer_ticks (snd (st_prep_line e steps us p))"
proof -
  from assms have ok: "exec_state p = PREP_BUFFER_OWNED_BY_EXEC" "isfinite us" "\<not> flt us (EPSILON e)"
    by (auto simp add: st_prep_line_status split: if_splits)
  show ?thesis by (simp add: st_prep_line_ok [OF ok])
qed

theorem st_prep_line_counter_reset_witness:
  "fst (st_prep_line scenario_env (steps6 10 0 0 0 0 0) (Fin 1000) slow_stage) = STAT_OK \<and>
   prev_ticks slow_stage = 2000 \<and>
   counter_reset_flag (snd (st_prep_line scenario_env (steps6 10 0 0 0 0 0) (Fin 1000) slow_stage)) \<and>
   prev_ticks (snd (st_prep_line scenario_env (steps6 10 0 0 0 0 0) (Fin 1000) slow_stage)) = 200"
proof -
  have ok: "fst (st_prep_line scenario_env (steps6 10 0 0 0 0 0) (Fin 1000) slow_stage) = STAT_OK"
    by (simp add: st_prep_line_status slow_stage_fields scenario_env_def)
  have t: "timer_ticks (snd (st_prep_line scenario_env (steps6 10 0 0 0 0 0) (Fin 1000) slow_stage))
             = 200"
    using fast_stage_fields(3) by (simp add: fast_stage_def)
  show ?thesis
    using st_prep_line_counter_reset [OF ok] ok t
    by (simp add: slow_stage_fields scenario_env_def)
qed

subsection \<open>C7: a single-axis forward line\<close>

text \<open>
  C7. With \<open>SUBSTEPS = 10\<close>, \<open>F_DDA = 200000\<close>, polarity 0 and the stage owned by exec
  (\<^verbatim>\<open>EPSILON\<close> at most 1000, float operations in binary32),
  \<^verbatim>\<open>st_prep_line([100,0,0,0,0,0], 1000)\<close> returns \<^verbatim>\<open>STAT_OK\<close> and stages \<^verbatim>\<open>timer_ticks\<close> =
  200, \<^verbatim>\<open>timer_ticks_X_substeps\<close> = 2000, which is the 32-bit product of \<^verbatim>\<open>timer_ticks\<close>
  and \<open>SUBSTEPS\<close>, and for motor 1 the increment 1000 and the direction 0.
\<close>

theorem st_prep_line_single_axis:
  assumes "DDA_SUBSTEPS e = 10" "FREQUENCY_DDA e = 200000" "polarity e MOTOR_1 = 0"
    and "EPSILON e \<le> 1000"
    and "round_quot e = round_binary32" "round_dda e = round_binary32"
    and "round_substeps e = round_binary32"
    and "exec_state p = PREP_BUFFER_OWNED_BY_EXEC"
  shows "fst (st_prep_line e (steps6 100 0 0 0 0 0) (Fin 1000) p) = STAT_OK \<and>
         timer_ticks (snd (st_prep_line e (steps6 100 0 0 0 0 0) (Fin 1000) p)) = 200 \<and>
         timer_ticks_X_substeps (snd (st_prep_line e (steps6 100 0 0 0 0 0) (Fin 1000) p)) = 2000 \<and>
         timer_ticks_X_substeps (snd (st_prep_line e (steps6 100 0 0 0 0 0) (Fin 1000) p)) =
           timer_ticks (snd (st_prep_line e (steps6 100 0 0 0 0 0) (Fin 1000) p))
             * word_of_int (DDA_SUBSTEPS e) \<and>
         prep_phase_increment
           (sps_m (snd (st_prep_line e (steps6 100 0 0 0 0 0) (Fin 1000) p)) MOTOR_1) = 1000 \<and>
         dir (sps_m (snd (st_prep_line e (steps6 100 0 0 0 0 0) (Fin 1000) p)) MOTOR_1) = 0"
  using assms
  by (simp add: st_prep_line_ok st_prep_line_status to_uint32_def trunc_def steps6_def
      binary32_at Let_def)

theorem st_prep_line_single_axis_witness:
  "fst (st_prep_line scenario_env (steps6 100 0 0 0 0 0) (Fin 1000) boot_sps) = STAT_OK \<and>
   timer_ticks (snd (st_prep_line scenario_env (steps6 100 0 0 0 0 0) (Fin 1000) boot_sps)) = 200 \<and>
   timer_ticks_X_substeps
     (snd (st_prep_line scenario_env (steps6 100 0 0 0 0 0) (Fin 1000) boot_sps)) = 2000 \<and>
   prep_phase_increment
     (sps_m (snd (st_prep_line scenario_env (steps6 100 0 0 0 0 0) (Fin 1000) boot_sps)) MOTOR_1)
       = 1000 \<and>
   dir (sps_m (snd (st_prep_line scenario_env (steps6 100 0 0 0 0 0) (Fin 1000) boot_sps)) MOTOR_1) = 0"
  using st_prep_line_single_axis [of scenario_env boot_sps]
  by (simp add: scenario_env_def zero_byte_def boot_sps_def)

subsection \<open>C8: \<^verbatim>\<open>st_disable\<close>\<close>

text \<open>
  C8. \<^verbatim>\<open>st_disable\<close> is to set the enable line of each of the six motors. It stops
  the DDA timer, sets the shared enable line, clears all six increments and sets the
  enable lines of motors 1, 2, 4, 5 and 6; the line of motor 3 is not touched: from a
  machine whose motor 3 line is low, it is still low afterwards.
\<close>

theorem st_disable_skips_motor_3: "\<not> motor_enable (st_disable boot_machine) MOTOR_3"
  by (simp add: st_disable_def pin_defs ex_defs)

subsection \<open>C9: \<^verbatim>\<open>st_prep_dwell\<close>\<close>




subsection \<open>C10: the dwell interrupt\<close>

text \<open>
  C10. The dwell interrupt stops the dwell timer and calls the loader exactly when the
  down counter is 1 on entry; on every other entry it only decrements the counter. In
  particular, entered with the counter at 0 it leaves the counter at \<open>- 1\<close>, the
  timer running and the loader uncalled.
\<close>

theorem dwell_isr_load_iff:
  "dwell_isr s =
     (if timer_ticks_downcount (st s) = 1
      then load_move (s\<lparr>st := (st s)\<lparr>timer_ticks_downcount := 0\<rparr>, dwell_timer_on := False\<rparr>)
      else s\<lparr>st := (st s)\<lparr>timer_ticks_downcount := timer_ticks_downcount (st s) - 1\<rparr>\<rparr>) \<and>
   (timer_ticks_downcount (st s) = 0 \<longrightarrow>
      dwell_isr s = s\<lparr>st := (st s)\<lparr>timer_ticks_downcount := - 1\<rparr>\<rparr>)"
  by (simp add: dwell_isr_def Let_def)

text \<open>A dwell of 0 microseconds: loaded with \<^verbatim>\<open>timer_ticks\<close> = 0, and after the first
  tick the counter is \<open>- 1\<close> and the dwell timer still runs.\<close>

theorem dwell_isr_load_iff_witness:
  "timer_ticks (st_prep_dwell scenario_env (Fin 0) boot_sps) = 0 \<and>
   timer_ticks_downcount
     (st (dwell_isr (load_move (boot_machine\<lparr>sps := st_prep_dwell scenario_env (Fin 0) boot_sps\<rparr>))))
     = - 1 \<and>
   dwell_timer_on
     (dwell_isr (load_move (boot_machine\<lparr>sps := st_prep_dwell scenario_env (Fin 0) boot_sps\<rparr>)))"
proof -
  have p: "move_type (st_prep_dwell scenario_env (Fin 0) boot_sps) = MOVE_TYPE_DWELL"
    "timer_ticks (st_prep_dwell scenario_env (Fin 0) boot_sps) = 0"
    by (simp_all add: st_prep_dwell_def Let_def to_uint32_def trunc_def scenario_env_def
        round_binary32_0)
  have l: "timer_ticks_downcount
             (st (load_move (boot_machine\<lparr>sps := st_prep_dwell scenario_env (Fin 0) boot_sps\<rparr>))) = 0"
    "dwell_timer_on (load_move (boot_machine\<lparr>sps := st_prep_dwell scenario_env (Fin 0) boot_sps\<rparr>))"
    using load_move_dwell [of "boot_machine\<lparr>sps := st_prep_dwell scenario_env (Fin 0) boot_sps\<rparr>"] p
    by simp_all
  show ?thesis
    using dwell_isr_load_iff
      [of "load_move (boot_machine\<lparr>sps := st_prep_dwell scenario_env (Fin 0) boot_sps\<rparr>)"] l p
    by simp
qed

end
